theory Spec2Isabelle
  imports Main
begin

section \<open>Data model\<close>

subsection \<open>Tokens\<close>

text \<open>
  \<^verbatim>\<open>jwt.sign({ id }, secret, { expiresIn: "7d" })\<close> builds a token whose payload holds
  the caller's \<open>id\<close> field, the issue time \<open>iat\<close> and the expiry \<open>exp\<close> (both in whole
  seconds), and signs it with the key. The signature is kept symbolic: it records the key
  and the payload it was computed from, so that checking it is comparing both.
\<close>

datatype jwt_payload = Payload (jwt_id: string) (iat: nat) (exp: nat)

datatype jwt_signature = HS256 (signing_key: string) (signed: jwt_payload)

record jwt =
  payload :: jwt_payload
  signature :: jwt_signature

subsection \<open>JSON bodies and HTTP responses\<close>

datatype json =
    JString string
  | JNumber nat
  | JToken jwt
  | JObject "(string \<times> json) list"

record response =
  status :: nat
  body :: json

fun keys :: "json \<Rightarrow> string list" where
  "keys (JObject kvs) = map fst kvs"
| "keys _ = []"

fun member :: "json \<Rightarrow> string \<Rightarrow> json option" where
  "member (JObject kvs) k = map_of kvs k"
| "member _ k = None"

subsection \<open>Requests\<close>

text \<open>
  \<^verbatim>\<open>const { email, password, role } = req.body\<close>: each field is a string or absent
  (\<open>undefined\<close>, here \<open>None\<close>). \<open>falsy\<close> is JavaScript's \<^verbatim>\<open>!x\<close> on such a value: true for
  \<open>undefined\<close> and for the empty string.
\<close>

record req_body =
  email :: "string option"
  password :: "string option"
  role :: "string option"

fun falsy :: "string option \<Rightarrow> bool" where
  "falsy None = True"
| "falsy (Some s) = (s = [])"

subsection \<open>The User collection\<close>

text \<open>
  Modelled from the spec: \<^verbatim>\<open>models/User.js\<close> is not among the sources; the Account of the
  data model (id, email, passwordHash, role, createdAt, updatedAt) and the schema quoted in
  \<^verbatim>\<open>Documentations/backend_docs.md\<close> (email: required, unique; password: required; role:
  required, one of the four; timestamps) give the document and its validation.
\<close>

record user =
  user_id :: string
  user_email :: string
  user_password :: string
  user_role :: string
  createdAt :: nat
  updatedAt :: nat

type_synonym store = "user list"

definition roles :: "string list" where
  "roles = [''student'', ''teacher'', ''admin'', ''parent'']"

subsection \<open>The environment of a request\<close>

text \<open>
  What a handler reads from outside its arguments: the process environment left by
  \<^verbatim>\<open>dotenv.config()\<close>, the clock (seconds), the \<^verbatim>\<open>bcryptjs\<close> functions (a library, taken as
  parameters; \<open>bcrypt_hash\<close> is the call with the salt this request draws), the ObjectId
  that \<^verbatim>\<open>new User(...)\<close> draws, and whether the driver throws on the query or on the
  write (with the exception's message).
\<close>

record env =
  process_env :: "string \<rightharpoonup> string"
  now :: nat
  bcrypt_hash :: "string \<Rightarrow> nat \<Rightarrow> string"
  bcrypt_compare :: "string \<Rightarrow> string \<Rightarrow> bool"
  new_object_id :: string
  find_error :: "string option"
  save_error :: "string option"

section \<open>Operations\<close>

subsection \<open>Token issuance\<close>

definition seven_days :: nat where
  \<comment> \<open>the time span \<^verbatim>\<open>"7d"\<close>, in seconds\<close>
  "seven_days = 7 * 24 * 60 * 60"

definition jwt_sign :: "string \<Rightarrow> string \<Rightarrow> nat \<Rightarrow> nat \<Rightarrow> jwt" where
  "jwt_sign ident secret expiresIn t =
     (let p = Payload ident t (t + expiresIn)
      in \<lparr>payload = p, signature = HS256 secret p\<rparr>)"

definition generateToken :: "env \<Rightarrow> string \<Rightarrow> jwt" where
  "generateToken e ident = jwt_sign ident ''your_jwt_secret'' seven_days (now e)"

text \<open>
  Modelled from the spec: the Token Verifier (\<open>verify(token) -> accountId | InvalidToken\<close>)
  is not in the sources, which only issue tokens. It "fails with InvalidToken if the
  signature does not match, the payload is malformed, or the current time is at/after
  expiry", and otherwise returns the subject. The time \<open>t\<close> is the current time in seconds;
  a payload of this model is well-formed by its type.
\<close>

datatype token_error = InvalidToken

definition verify :: "string \<Rightarrow> nat \<Rightarrow> jwt \<Rightarrow> token_error + string" where
  "verify secret t tok =
     (if signature tok \<noteq> HS256 secret (payload tok) then Inl InvalidToken
      else if exp (payload tok) \<le> t then Inl InvalidToken
      else Inr (jwt_id (payload tok)))"

subsection \<open>Store operations\<close>

text \<open>
  Modelled from the spec: the Identity Store Adapter. \<open>findOne\<close> returns the first
  document matching the filter, or nothing; \<open>save\<close> of a new document validates it against
  the schema, enforces the unique indexes (on \<open>_id\<close> and on \<open>email\<close>) and appends it. Either
  throws when the store is unavailable; a failed \<open>save\<close> writes nothing.
\<close>

datatype filter = ByEmail string | ByEmailRole string string

fun matches :: "filter \<Rightarrow> user \<Rightarrow> bool" where
  "matches (ByEmail a) u = (user_email u = a)"
| "matches (ByEmailRole a r) u = (user_email u = a \<and> user_role u = r)"

definition findOne :: "env \<Rightarrow> filter \<Rightarrow> store \<Rightarrow> string + user option" where
  "findOne e flt db =
     (case find_error e of
        Some msg \<Rightarrow> Inl msg
      | None \<Rightarrow> Inr (find (matches flt) db))"

definition new_User :: "env \<Rightarrow> string \<Rightarrow> string \<Rightarrow> string \<Rightarrow> user" where
  "new_User e a h r =
     \<lparr>user_id = new_object_id e, user_email = a, user_password = h, user_role = r,
      createdAt = now e, updatedAt = now e\<rparr>"

definition valid_user :: "user \<Rightarrow> bool" where
  "valid_user u = (user_email u \<noteq> [] \<and> user_password u \<noteq> [] \<and> user_role u \<in> set roles)"

definition save :: "env \<Rightarrow> user \<Rightarrow> store \<Rightarrow> string + store" where
  "save e u db =
     (case save_error e of
        Some msg \<Rightarrow> Inl msg
      | None \<Rightarrow>
          if \<not> valid_user u then Inl ''User validation failed''
          else if user_id u \<in> set (map user_id db)
                  \<or> user_email u \<in> set (map user_email db)
          then Inl ''E11000 duplicate key error''
          else Inr (db @ [u]))"

subsection \<open>The route handlers of \<^verbatim>\<open>backend/routes/authRoutes.js\<close>\<close>

definition message :: "nat \<Rightarrow> string \<Rightarrow> response" where
  "message code msg = \<lparr>status = code, body = JObject [(''message'', JString msg)]\<rparr>"

definition server_error :: "string \<Rightarrow> response" where
  "server_error msg =
     \<lparr>status = 500,
      body = JObject [(''message'', JString ''Server error''), (''error'', JString msg)]\<rparr>"

definition user_view :: "user \<Rightarrow> json" where
  "user_view u =
     JObject [(''id'', JString (user_id u)),
              (''email'', JString (user_email u)),
              (''role'', JString (user_role u))]"

definition register :: "env \<Rightarrow> req_body \<Rightarrow> store \<Rightarrow> response \<times> store" where
  "register e req db =
     (if falsy (email req) \<or> falsy (password req) \<or> falsy (role req)
      then (message 400 ''All fields are required'', db)
      else
        let a = the (email req); p = the (password req); r = the (role req) in
        if r \<notin> set roles then (message 400 ''Invalid role'', db)
        else
          case findOne e (ByEmail a) db of
            Inl err \<Rightarrow> (server_error err, db)
          | Inr (Some userExists) \<Rightarrow> (message 400 ''User already exists'', db)
          | Inr None \<Rightarrow>
              (let hashedPassword = bcrypt_hash e p 10;
                   u = new_User e a hashedPassword r
               in case save e u db of
                    Inl err \<Rightarrow> (server_error err, db)
                  | Inr db' \<Rightarrow>
                      (\<lparr>status = 201,
                        body = JObject
                          [(''message'', JString (r @ '' registered successfully'')),
                           (''token'', JToken (generateToken e (user_id u))),
                           (''user'', user_view u)]\<rparr>,
                       db')))"

definition login :: "env \<Rightarrow> req_body \<Rightarrow> store \<Rightarrow> response" where
  "login e req db =
     (if falsy (email req) \<or> falsy (password req) \<or> falsy (role req)
      then message 400 ''All fields are required''
      else
        let a = the (email req); p = the (password req); r = the (role req) in
        case findOne e (ByEmailRole a r) db of
          Inl err \<Rightarrow> server_error err
        | Inr None \<Rightarrow> message 400 ''User not found for this role''
        | Inr (Some u) \<Rightarrow>
            if \<not> bcrypt_compare e p (user_password u)
            then message 400 ''Invalid password''
            else
              \<lparr>status = 200,
               body = JObject
                 [(''message'', JString (r @ '' login successful'')),
                  (''token'', JToken (generateToken e (user_id u))),
                  (''user'', user_view u)]\<rparr>)"

text \<open>The signing secret that the process configuration supplies.\<close>

definition configured_secret :: "env \<Rightarrow> string option" where
  "configured_secret e = process_env e ''JWT_SECRET''"

subsection \<open>The route handlers of \<^verbatim>\<open>unnamed/part_000\<close>\<close>

text \<open>
  A second copy of the two handlers, without tokens: it answers with the stored document
  itself (\<^verbatim>\<open>res.json({ message, user })\<close>), which serialises every field of the document.
\<close>

definition user_json :: "user \<Rightarrow> json" where
  "user_json u =
     JObject [(''_id'', JString (user_id u)),
              (''email'', JString (user_email u)),
              (''password'', JString (user_password u)),
              (''role'', JString (user_role u)),
              (''createdAt'', JNumber (createdAt u)),
              (''updatedAt'', JNumber (updatedAt u)),
              (''__v'', JNumber 0)]"

definition register_part_000 :: "env \<Rightarrow> req_body \<Rightarrow> store \<Rightarrow> response \<times> store" where
  "register_part_000 e req db =
     (if falsy (email req) \<or> falsy (password req) \<or> falsy (role req)
      then (message 400 ''All fields are required'', db)
      else
        let a = the (email req); p = the (password req); r = the (role req) in
        if r \<notin> set roles then (message 400 ''Invalid role'', db)
        else
          case findOne e (ByEmail a) db of
            Inl err \<Rightarrow> (server_error err, db)
          | Inr (Some userExists) \<Rightarrow> (message 400 ''User already exists'', db)
          | Inr None \<Rightarrow>
              (let hashedPassword = bcrypt_hash e p 10;
                   u = new_User e a hashedPassword r
               in case save e u db of
                    Inl err \<Rightarrow> (server_error err, db)
                  | Inr db' \<Rightarrow>
                      (\<lparr>status = 201,
                        body = JObject
                          [(''message'', JString (r @ '' registered successfully'')),
                           (''user'', user_json u)]\<rparr>,
                       db')))"

definition login_part_000 :: "env \<Rightarrow> req_body \<Rightarrow> store \<Rightarrow> response" where
  "login_part_000 e req db =
     (if falsy (email req) \<or> falsy (password req) \<or> falsy (role req)
      then message 400 ''All fields are required''
      else
        let a = the (email req); p = the (password req); r = the (role req) in
        case findOne e (ByEmailRole a r) db of
          Inl err \<Rightarrow> server_error err
        | Inr None \<Rightarrow> message 400 ''User not found for this role''
        | Inr (Some u) \<Rightarrow>
            if \<not> bcrypt_compare e p (user_password u)
            then message 400 ''Invalid password''
            else
              \<lparr>status = 200,
               body = JObject
                 [(''message'', JString (r @ '' login successful'')),
                  (''user'', user_json u)]\<rparr>)"

subsection \<open>Concrete instances\<close>

text \<open>
  An environment, a request and a stored document at which the theorems below are
  instantiated. The two bcrypt parameters of \<open>sample_env\<close> are stand-ins (the digest is the
  tagged password); in \<open>sample_env\<close> the process configuration names a signing secret.
\<close>

definition sample_env :: env where
  "sample_env =
     \<lparr>process_env = [''JWT_SECRET'' \<mapsto> ''s3cret''], now = 1000,
      bcrypt_hash = (\<lambda>p c. ''$2a$'' @ p), bcrypt_compare = (\<lambda>p h. h = ''$2a$'' @ p),
      new_object_id = ''id1'', find_error = None, save_error = None\<rparr>"

definition sample_req :: req_body where
  "sample_req =
     \<lparr>email = Some ''a@x.com'', password = Some ''pw1'', role = Some ''student''\<rparr>"

definition sample_user :: user where
  "sample_user =
     \<lparr>user_id = ''id0'', user_email = ''a@x.com'', user_password = ''$2a$pw1'',
      user_role = ''teacher'', createdAt = 5, updatedAt = 5\<rparr>"

section \<open>Basic facts about the operations\<close>

lemma generateToken_payload:
  "payload (generateToken e i) = Payload i (now e) (now e + seven_days)"
  by (simp add: generateToken_def jwt_sign_def Let_def)

lemma generateToken_signature:
  "signature (generateToken e i) = HS256 ''your_jwt_secret'' (payload (generateToken e i))"
  by (simp add: generateToken_def jwt_sign_def Let_def)

lemma findOne_up: "find_error e = None \<Longrightarrow> findOne e flt db = Inr (find (matches flt) db)"
  by (simp add: findOne_def)

lemma findOne_down: "find_error e = Some m \<Longrightarrow> findOne e flt db = Inl m"
  by (simp add: findOne_def)

lemma find_email_None:
  "(find (matches (ByEmail a)) db = None) = (\<forall>u\<in>set db. user_email u \<noteq> a)"
  by (auto simp: find_None_iff)

lemma find_snoc:
  "find P (xs @ [y]) =
     (case find P xs of Some x \<Rightarrow> Some x | None \<Rightarrow> if P y then Some y else None)"
  by (induction xs) simp_all

lemma save_Inr:
  "save e u db = Inr db' \<Longrightarrow>
     db' = db @ [u] \<and> valid_user u \<and> user_id u \<notin> user_id ` set db \<and>
     user_email u \<notin> user_email ` set db"
  by (auto simp: save_def split: option.splits if_splits)

lemma save_ok:
  "save_error e = None \<Longrightarrow> valid_user u \<Longrightarrow> user_id u \<notin> user_id ` set db \<Longrightarrow>
   user_email u \<notin> user_email ` set db \<Longrightarrow> save e u db = Inr (db @ [u])"
  by (simp add: save_def)

lemma find_email_role_None:
  "(find (matches (ByEmailRole a r)) db = None) =
     (\<forall>u\<in>set db. user_email u = a \<longrightarrow> user_role u \<noteq> r)"
  by (auto simp: find_None_iff)

text \<open>A query that matches no document ends \<open>login\<close> with the not-found answer.\<close>

lemma login_not_found:
  assumes "email req = Some a" "password req = Some p" "role req = Some r"
    and "a \<noteq> []" "p \<noteq> []" "r \<noteq> []"
    and "find_error e = None"
    and "\<forall>u\<in>set db. user_email u = a \<longrightarrow> user_role u \<noteq> r"
  shows "login e req db = message 400 ''User not found for this role''"
proof -
  have "find (matches (ByEmailRole a r)) db = None"
    using assms(8) by (simp add: find_email_role_None)
  then show ?thesis
    using assms(1-7) by (simp add: login_def findOne_up)
qed

lemma find_in_set: "find P xs = Some x \<Longrightarrow> x \<in> set xs"
  by (auto simp: find_Some_iff)

text \<open>A run of \<open>register\<close> leaves the store as it was or appends the one saved document.\<close>

lemma register_store_cases:
  "snd (register e req db) = db \<or>
   (\<exists>u. snd (register e req db) = db @ [u] \<and> save e u db = Inr (db @ [u]))"
  by (auto simp: register_def Let_def split: sum.splits option.splits dest: save_Inr)

text \<open>Every document that \<open>register\<close> stores satisfies the schema.\<close>

lemma register_keeps_schema:
  "\<forall>u\<in>set db. valid_user u \<Longrightarrow> \<forall>u\<in>set (snd (register e req db)). valid_user u"
  using register_store_cases [of e req db] by (auto dest!: save_Inr)

text \<open>The successful run of \<open>register\<close>, written out.\<close>

lemma register_created:
  assumes "email req = Some a" "password req = Some p" "role req = Some r"
    and "a \<noteq> []" "p \<noteq> []" "r \<in> set roles"
    and "\<forall>u\<in>set db. user_email u \<noteq> a"
    and "find_error e = None" "save_error e = None"
    and "new_object_id e \<notin> user_id ` set db"
    and "bcrypt_hash e p 10 \<noteq> []"
  shows "register e req db =
           (\<lparr>status = 201,
             body = JObject
               [(''message'', JString (r @ '' registered successfully'')),
                (''token'', JToken (generateToken e (new_object_id e))),
                (''user'', user_view (new_User e a (bcrypt_hash e p 10) r))]\<rparr>,
            db @ [new_User e a (bcrypt_hash e p 10) r])"
proof -
  have nonempty: "r \<noteq> []" using assms(6) by (auto simp: roles_def)
  have none: "find (matches (ByEmail a)) db = None"
    using assms(7) by (simp add: find_email_None)
  have "valid_user (new_User e a (bcrypt_hash e p 10) r)"
    using assms by (simp add: valid_user_def new_User_def)
  moreover have "user_email (new_User e a (bcrypt_hash e p 10) r) \<notin> user_email ` set db"
    using assms(7) by (auto simp: new_User_def)
  moreover have "user_id (new_User e a (bcrypt_hash e p 10) r) \<notin> user_id ` set db"
    using assms(10) by (simp add: new_User_def)
  ultimately have "save e (new_User e a (bcrypt_hash e p 10) r) db
      = Inr (db @ [new_User e a (bcrypt_hash e p 10) r])"
    using assms(9) by (simp add: save_ok)
  then show ?thesis
    using assms(1-6,8) nonempty none
    by (simp add: register_def findOne_up Let_def new_User_def)
qed

section \<open>Registration followed by authentication\<close>

text \<open>
  C1. For a request with all three fields present and non-empty and a permitted role, on a
  store that holds no account with that email, \<open>register\<close> answers 201 with a token and a
  later \<open>login\<close> with the same fields answers 200 with a token, and both tokens carry the
  id of the same stored account. The store is available in both runs, the drawn ObjectId
  is new, and bcrypt behaves as its contract says on this password: the digest is not
  empty and \<open>compare\<close> accepts the password against it.
\<close>

theorem register_then_login:
  assumes "email req = Some a" "password req = Some p" "role req = Some r"
    and "a \<noteq> []" "p \<noteq> []" "r \<in> set roles"
    and "\<forall>u\<in>set db. user_email u \<noteq> a"
    and "find_error e = None" "save_error e = None"
    and "new_object_id e \<notin> user_id ` set db"
    and "bcrypt_hash e p 10 \<noteq> []"
    and "find_error e' = None"
    and "bcrypt_compare e' p (bcrypt_hash e p 10)"
  shows "\<exists>u\<in>set (snd (register e req db)).
           status (fst (register e req db)) = 201 \<and>
           member (body (fst (register e req db))) ''token''
             = Some (JToken (generateToken e (user_id u))) \<and>
           status (login e' req (snd (register e req db))) = 200 \<and>
           member (body (login e' req (snd (register e req db)))) ''token''
             = Some (JToken (generateToken e' (user_id u))) \<and>
           jwt_id (payload (generateToken e (user_id u))) = user_id u \<and>
           jwt_id (payload (generateToken e' (user_id u))) = user_id u"
proof -
  let ?u = "new_User e a (bcrypt_hash e p 10) r"
  have reg: "register e req db =
           (\<lparr>status = 201,
             body = JObject
               [(''message'', JString (r @ '' registered successfully'')),
                (''token'', JToken (generateToken e (new_object_id e))),
                (''user'', user_view ?u)]\<rparr>,
            db @ [?u])"
    using assms(1-11) by (rule register_created)
  have nonempty: "r \<noteq> []" using assms(6) by (auto simp: roles_def)
  have "find (matches (ByEmailRole a r)) db = None"
    using assms(7) by (auto simp: find_None_iff)
  then have found: "find (matches (ByEmailRole a r)) (db @ [?u]) = Some ?u"
    by (simp add: find_snoc new_User_def)
  have log: "login e' req (db @ [?u]) =
      \<lparr>status = 200,
       body = JObject
         [(''message'', JString (r @ '' login successful'')),
          (''token'', JToken (generateToken e' (user_id ?u))),
          (''user'', user_view ?u)]\<rparr>"
    using assms(1-5,12,13) nonempty found
    by (simp add: login_def findOne_up Let_def) (simp add: new_User_def)
  have uid: "user_id ?u = new_object_id e" by (simp add: new_User_def)
  show ?thesis
    by (simp add: reg log generateToken_payload uid)
qed

theorem register_then_login_witness:
  "\<exists>u\<in>set (snd (register sample_env sample_req [])).
     status (fst (register sample_env sample_req [])) = 201 \<and>
     member (body (fst (register sample_env sample_req []))) ''token''
       = Some (JToken (generateToken sample_env (user_id u))) \<and>
     status (login sample_env sample_req (snd (register sample_env sample_req []))) = 200 \<and>
     member (body (login sample_env sample_req (snd (register sample_env sample_req []))))
       ''token'' = Some (JToken (generateToken sample_env (user_id u))) \<and>
     jwt_id (payload (generateToken sample_env (user_id u))) = user_id u"
  using register_then_login
    [of sample_req "''a@x.com''" "''pw1''" "''student''" "[]" sample_env sample_env]
  by (simp add: sample_env_def sample_req_def roles_def)

section \<open>Registration failures\<close>

text \<open>
  C3. When the store holds an account with the request's email, \<open>register\<close> answers 400
  "User already exists" and returns the store as it was, for each of the four roles the
  request may name, whatever the role of the stored account. (The request passes the two
  input checks, which come first, and the query does not throw.)
\<close>

theorem register_duplicate_email:
  assumes "email req = Some a" "password req = Some p" "role req = Some r"
    and "a \<noteq> []" "p \<noteq> []" "r \<in> set roles"
    and "find_error e = None"
    and "\<exists>u\<in>set db. user_email u = a"
  shows "register e req db = (message 400 ''User already exists'', db)"
proof -
  from assms(8) have "find (matches (ByEmail a)) db \<noteq> None"
    by (simp add: find_email_None)
  then obtain v where "find (matches (ByEmail a)) db = Some v" by blast
  with assms show ?thesis
    by (auto simp: register_def findOne_up roles_def)
qed

theorem register_duplicate_email_witness:
  "user_role sample_user \<noteq> ''student'' \<and>
   register sample_env sample_req [sample_user]
     = (message 400 ''User already exists'', [sample_user])"
  using register_duplicate_email
    [of sample_req "''a@x.com''" "''pw1''" "''student''" sample_env "[sample_user]"]
  by (simp add: sample_env_def sample_req_def sample_user_def roles_def)

text \<open>
  C8. A run of \<open>register\<close> that does not answer 201 returns no token and leaves the store
  as it was; and whenever the answer holds a token, the status is 201 and the token's id
  is the id of a document that this run added to the store.
\<close>

theorem register_token_only_after_persist:
  "(status (fst (register e req db)) \<noteq> 201 \<longrightarrow>
      member (body (fst (register e req db))) ''token'' = None \<and>
      snd (register e req db) = db) \<and>
   (\<forall>j. member (body (fst (register e req db))) ''token'' = Some j \<longrightarrow>
      status (fst (register e req db)) = 201 \<and>
      (\<exists>u\<in>set (snd (register e req db)).
          u \<notin> set db \<and> j = JToken (generateToken e (user_id u)) \<and>
          jwt_id (payload (generateToken e (user_id u))) = user_id u))"
  by (auto simp: register_def Let_def message_def server_error_def generateToken_payload
           split: sum.splits option.splits dest!: save_Inr)

theorem register_token_only_after_persist_witness:
  "status (fst (register sample_env sample_req [sample_user])) \<noteq> 201 \<and>
   member (body (fst (register sample_env sample_req [sample_user]))) ''token'' = None \<and>
   snd (register sample_env sample_req [sample_user]) = [sample_user] \<and>
   member (body (fst (register sample_env sample_req []))) ''token''
     = Some (JToken (generateToken sample_env ''id1'')) \<and>
   status (fst (register sample_env sample_req [])) = 201 \<and>
   (\<exists>u\<in>set (snd (register sample_env sample_req [])). user_id u = ''id1'')"
  using register_token_only_after_persist [of sample_env sample_req "[sample_user]"]
    register_token_only_after_persist [of sample_env sample_req "[]"]
  by (simp add: register_def findOne_def save_def valid_user_def new_User_def message_def
        sample_env_def sample_req_def sample_user_def roles_def Let_def)

section \<open>Uniqueness of emails\<close>

text \<open>
  C9. \<open>register\<close> is the only handler that returns a store (\<open>login\<close> returns a response
  alone). If no two accounts of the store share an email before a run of \<open>register\<close>, none
  do after it, whatever their roles and however the run ends.
\<close>

theorem register_keeps_emails_unique:
  "distinct (map user_email db) \<Longrightarrow> distinct (map user_email (snd (register e req db)))"
  using register_store_cases [of e req db]
  by (auto dest!: save_Inr)

theorem register_keeps_emails_unique_witness:
  "distinct (map user_email [sample_user]) \<and>
   distinct (map user_email
     (snd (register sample_env (sample_req\<lparr>email := Some ''b@x.com''\<rparr>) [sample_user]))) \<and>
   length (snd (register sample_env (sample_req\<lparr>email := Some ''b@x.com''\<rparr>) [sample_user])) = 2"
  using register_keeps_emails_unique
    [of "[sample_user]" sample_env "sample_req\<lparr>email := Some ''b@x.com''\<rparr>"]
  by (simp add: register_def findOne_def save_def valid_user_def new_User_def
        sample_env_def sample_req_def sample_user_def roles_def Let_def)

section \<open>Authentication failures and the role field\<close>

text \<open>
  C4. On a store in which no two accounts share an email, \<open>login\<close> with the email of a
  stored account, its correct password and a role other than the stored one answers 400
  "User not found for this role"; and the answer is the very one that the same request
  gets from any store holding no account with that email at all, so it does not tell
  whether the email is registered under another role.
\<close>

theorem login_wrong_role:
  assumes "u \<in> set db" "distinct (map user_email db)"
    and "email req = Some (user_email u)" "password req = Some p" "role req = Some r"
    and "user_email u \<noteq> []" "p \<noteq> []" "r \<noteq> []"
    and "bcrypt_compare e p (user_password u)"
    and "r \<noteq> user_role u"
    and "find_error e = None"
  shows "login e req db = message 400 ''User not found for this role'' \<and>
         (\<forall>db2. (\<forall>v\<in>set db2. user_email v \<noteq> user_email u) \<longrightarrow>
                login e req db2 = login e req db)"
proof -
  have only: "\<forall>v\<in>set db. user_email v = user_email u \<longrightarrow> user_role v \<noteq> r"
  proof (intro ballI impI)
    fix v assume "v \<in> set db" "user_email v = user_email u"
    with assms(1,2) have "v = u"
      by (meson distinct_map inj_onD)
    with assms(10) show "user_role v \<noteq> r" by simp
  qed
  have here: "login e req db = message 400 ''User not found for this role''"
    using assms(3-8,11) only by (rule login_not_found)
  have "login e req db2 = message 400 ''User not found for this role''"
    if "\<forall>v\<in>set db2. user_email v \<noteq> user_email u" for db2
    using that by (intro login_not_found [OF assms(3-8,11)]) simp
  with here show ?thesis by simp
qed

theorem login_wrong_role_witness:
  "bcrypt_compare sample_env ''pw1'' (user_password sample_user) \<and>
   ''student'' \<noteq> user_role sample_user \<and>
   login sample_env sample_req [sample_user] = message 400 ''User not found for this role'' \<and>
   login sample_env sample_req [] = login sample_env sample_req [sample_user]"
  using login_wrong_role [of sample_user "[sample_user]" sample_req "''pw1''" "''student''" sample_env]
  by (simp add: sample_env_def sample_req_def sample_user_def)

text \<open>
  C10. \<open>login\<close> does not compare the role with the permitted ones. A request whose three
  fields are present and non-empty passes its input check whatever the role: the query
  runs (its exception is the 500 answer, its result decides the rest). With a role
  outside the four, on a store whose documents satisfy the schema, the answer is 400
  "User not found for this role", while \<open>register\<close> answers the same request with 400
  "Invalid role" and leaves the store as it was.
\<close>

theorem login_role_not_validated:
  assumes "email req = Some a" "password req = Some p" "role req = Some r"
    and "a \<noteq> []" "p \<noteq> []" "r \<noteq> []"
  shows "(\<forall>m. find_error e = Some m \<longrightarrow> login e req db = server_error m) \<and>
         (find_error e = None \<longrightarrow>
            login e req db =
              (case find (matches (ByEmailRole a r)) db of
                 None \<Rightarrow> message 400 ''User not found for this role''
               | Some u \<Rightarrow>
                   if \<not> bcrypt_compare e p (user_password u)
                   then message 400 ''Invalid password''
                   else \<lparr>status = 200,
                         body = JObject
                           [(''message'', JString (r @ '' login successful'')),
                            (''token'', JToken (generateToken e (user_id u))),
                            (''user'', user_view u)]\<rparr>)) \<and>
         (r \<notin> set roles \<and> (\<forall>u\<in>set db. valid_user u) \<and> find_error e = None \<longrightarrow>
            login e req db = message 400 ''User not found for this role'') \<and>
         (r \<notin> set roles \<longrightarrow> register e req db = (message 400 ''Invalid role'', db))"
proof (intro conjI allI impI)
  fix m assume "find_error e = Some m"
  with assms show "login e req db = server_error m"
    by (simp add: login_def findOne_down)
next
  assume "find_error e = None"
  with assms show "login e req db =
              (case find (matches (ByEmailRole a r)) db of
                 None \<Rightarrow> message 400 ''User not found for this role''
               | Some u \<Rightarrow>
                   if \<not> bcrypt_compare e p (user_password u)
                   then message 400 ''Invalid password''
                   else \<lparr>status = 200,
                         body = JObject
                           [(''message'', JString (r @ '' login successful'')),
                            (''token'', JToken (generateToken e (user_id u))),
                            (''user'', user_view u)]\<rparr>)"
    by (simp add: login_def findOne_up split: option.splits)
next
  assume h: "r \<notin> set roles \<and> (\<forall>u\<in>set db. valid_user u) \<and> find_error e = None"
  then have "\<forall>u\<in>set db. user_email u = a \<longrightarrow> user_role u \<noteq> r"
    by (auto simp: valid_user_def)
  moreover from h have "find_error e = None" by simp
  ultimately show "login e req db = message 400 ''User not found for this role''"
    by (intro login_not_found [OF assms]) simp_all
next
  assume "r \<notin> set roles"
  with assms show "register e req db = (message 400 ''Invalid role'', db)"
    by (simp add: register_def)
qed

theorem login_role_not_validated_witness:
  "''janitor'' \<notin> set roles \<and> valid_user sample_user \<and>
   login sample_env (sample_req\<lparr>role := Some ''janitor''\<rparr>) [sample_user]
     = message 400 ''User not found for this role'' \<and>
   login (sample_env\<lparr>find_error := Some ''down''\<rparr>) (sample_req\<lparr>role := Some ''janitor''\<rparr>) [sample_user]
     = server_error ''down'' \<and>
   register sample_env (sample_req\<lparr>role := Some ''janitor''\<rparr>) [sample_user]
     = (message 400 ''Invalid role'', [sample_user])"
  using login_role_not_validated [of "sample_req\<lparr>role := Some ''janitor''\<rparr>" "''a@x.com''" "''pw1''" "''janitor''" sample_env "[sample_user]"]
   login_role_not_validated [of "sample_req\<lparr>role := Some ''janitor''\<rparr>" "''a@x.com''" "''pw1''" "''janitor''" "sample_env\<lparr>find_error := Some ''down''\<rparr>" "[sample_user]"]
  by (simp add: sample_env_def sample_req_def sample_user_def roles_def valid_user_def)

section \<open>The account representation in responses\<close>

text \<open>
  The claim C6 as stated asks for the four fields id, email, role and createdAt. A
  successful \<open>register\<close> answers with an account object of three fields, without
  createdAt.
\<close>

theorem account_representation_counterexample:
  "status (fst (register sample_env sample_req [])) = 201 \<and>
   map_option keys (member (body (fst (register sample_env sample_req []))) ''user'')
     \<noteq> Some [''id'', ''email'', ''role'', ''createdAt'']"
  by (simp add: register_def findOne_def save_def valid_user_def new_User_def user_view_def
        sample_env_def sample_req_def roles_def Let_def)

text \<open>
  C6, amended. Every 201 answer of \<open>register\<close> and every 200 answer of \<open>login\<close> has
  exactly the members message, token and user, and its user member is exactly the object
  of the three fields id, email and role of a stored account: neither createdAt nor the
  password digest is in it.
\<close>

theorem account_representation:
  "(status (fst (register e req db)) = 201 \<longrightarrow>
      keys (body (fst (register e req db))) = [''message'', ''token'', ''user''] \<and>
      (\<exists>u\<in>set (snd (register e req db)).
         member (body (fst (register e req db))) ''user''
           = Some (JObject [(''id'', JString (user_id u)),
                            (''email'', JString (user_email u)),
                            (''role'', JString (user_role u))]))) \<and>
   (status (login e req db) = 200 \<longrightarrow>
      keys (body (login e req db)) = [''message'', ''token'', ''user''] \<and>
      (\<exists>u\<in>set db.
         member (body (login e req db)) ''user''
           = Some (JObject [(''id'', JString (user_id u)),
                            (''email'', JString (user_email u)),
                            (''role'', JString (user_role u))])))"
proof (intro conjI impI)
  assume ok: "status (fst (register e req db)) = 201"
  then show "keys (body (fst (register e req db))) = [''message'', ''token'', ''user'']"
    by (auto simp: register_def Let_def message_def server_error_def
             split: sum.splits option.splits if_splits)
  from ok show "\<exists>u\<in>set (snd (register e req db)).
         member (body (fst (register e req db))) ''user''
           = Some (JObject [(''id'', JString (user_id u)),
                            (''email'', JString (user_email u)),
                            (''role'', JString (user_role u))])"
    by (auto simp: register_def Let_def message_def server_error_def user_view_def
             split: sum.splits option.splits if_splits dest!: save_Inr)
next
  assume ok: "status (login e req db) = 200"
  then show "keys (body (login e req db)) = [''message'', ''token'', ''user'']"
    by (auto simp: login_def Let_def message_def server_error_def
             split: sum.splits option.splits if_splits)
  from ok show "\<exists>u\<in>set db.
         member (body (login e req db)) ''user''
           = Some (JObject [(''id'', JString (user_id u)),
                            (''email'', JString (user_email u)),
                            (''role'', JString (user_role u))])"
    by (auto simp: login_def findOne_def Let_def message_def server_error_def user_view_def
             split: sum.splits option.splits if_splits dest!: find_in_set)
qed

theorem account_representation_witness:
  "status (fst (register sample_env sample_req [])) = 201 \<and>
   keys (body (fst (register sample_env sample_req []))) = [''message'', ''token'', ''user''] \<and>
   member (body (fst (register sample_env sample_req []))) ''user''
     = Some (JObject [(''id'', JString ''id1''), (''email'', JString ''a@x.com''),
                      (''role'', JString ''student'')]) \<and>
   status (login sample_env (sample_req\<lparr>role := Some ''teacher''\<rparr>) [sample_user]) = 200 \<and>
   member (body (login sample_env (sample_req\<lparr>role := Some ''teacher''\<rparr>) [sample_user])) ''user''
     = Some (JObject [(''id'', JString ''id0''), (''email'', JString ''a@x.com''),
                      (''role'', JString ''teacher'')])"
  using account_representation [of sample_env sample_req "[]"]
    account_representation [of sample_env "sample_req\<lparr>role := Some ''teacher''\<rparr>" "[sample_user]"]
  by (simp add: register_def login_def findOne_def save_def valid_user_def new_User_def
        user_view_def sample_env_def sample_req_def sample_user_def roles_def Let_def)

text \<open>
  The handlers of \<^verbatim>\<open>unnamed/part_000\<close> answer with the whole document instead, and the
  stored digest is one of its fields.
\<close>

lemma register_part_000_returns_digest:
  "status (fst (register_part_000 sample_env sample_req [])) = 201 \<and>
   map_option (\<lambda>j. member j ''password'')
      (member (body (fst (register_part_000 sample_env sample_req []))) ''user'')
     = Some (Some (JString (bcrypt_hash sample_env ''pw1'' 10)))"
  by (simp add: register_part_000_def findOne_def save_def valid_user_def new_User_def
        user_json_def sample_env_def sample_req_def roles_def Let_def)

lemma login_part_000_returns_digest:
  "status (login_part_000 e req db) = 200 \<Longrightarrow>
     \<exists>u\<in>set db. member (body (login_part_000 e req db)) ''user'' = Some (user_json u) \<and>
        member (user_json u) ''password'' = Some (JString (user_password u))"
  by (auto simp: login_part_000_def findOne_def Let_def message_def server_error_def user_json_def
           split: sum.splits option.splits if_splits dest!: find_in_set)

section \<open>Token issuance and validity\<close>

text \<open>
  C5. Every token in an answer of \<open>register\<close> or \<open>login\<close> is issued by \<open>generateToken\<close>
  for the id of a stored account. A token issued for an id at time \<open>T\<close> (the clock of the
  issuing request, in seconds) carries that id, the issue time \<open>T\<close> and the expiry \<open>T\<close> plus seven days; the verifier,
  holding the key the issuer signs with, returns the id at every time from \<open>T\<close> up to but
  not including the expiry and answers InvalidToken at every time from the expiry on.
\<close>

theorem token_validity_window:
  "(\<forall>j. member (body (fst (register e req db))) ''token'' = Some j \<longrightarrow>
      (\<exists>u\<in>set (snd (register e req db)). j = JToken (generateToken e (user_id u)))) \<and>
   (\<forall>j. member (body (login e req db)) ''token'' = Some j \<longrightarrow>
      (\<exists>u\<in>set db. j = JToken (generateToken e (user_id u)))) \<and>
   jwt_id (payload (generateToken e i)) = i \<and>
   iat (payload (generateToken e i)) = now e \<and>
   exp (payload (generateToken e i)) = iat (payload (generateToken e i)) + 7 * 24 * 60 * 60 \<and>
   (\<forall>t. now e \<le> t \<and> t < now e + 7 * 24 * 60 * 60 \<longrightarrow>
        verify ''your_jwt_secret'' t (generateToken e i) = Inr i) \<and>
   (\<forall>t. now e + 7 * 24 * 60 * 60 \<le> t \<longrightarrow>
        verify ''your_jwt_secret'' t (generateToken e i) = Inl InvalidToken)"
proof (intro conjI)
  show "\<forall>j. member (body (fst (register e req db))) ''token'' = Some j \<longrightarrow>
      (\<exists>u\<in>set (snd (register e req db)). j = JToken (generateToken e (user_id u)))"
    by (auto simp: register_def Let_def message_def server_error_def
             split: sum.splits option.splits dest!: save_Inr)
  show "\<forall>j. member (body (login e req db)) ''token'' = Some j \<longrightarrow>
      (\<exists>u\<in>set db. j = JToken (generateToken e (user_id u)))"
    by (auto simp: login_def findOne_def Let_def message_def server_error_def
             split: sum.splits option.splits if_splits dest!: find_in_set)
qed (simp_all add: verify_def generateToken_payload generateToken_signature seven_days_def)

theorem token_validity_window_witness:
  "member (body (fst (register sample_env sample_req []))) ''token''
     = Some (JToken (generateToken sample_env ''id1'')) \<and>
   member (body (login sample_env (sample_req\<lparr>role := Some ''teacher''\<rparr>) [sample_user]))
     ''token'' = Some (JToken (generateToken sample_env ''id0'')) \<and>
   now sample_env = 1000 \<and>
   verify ''your_jwt_secret'' 1000 (generateToken sample_env ''id1'') = Inr ''id1'' \<and>
   verify ''your_jwt_secret'' 605799 (generateToken sample_env ''id1'') = Inr ''id1'' \<and>
   verify ''your_jwt_secret'' 605800 (generateToken sample_env ''id1'') = Inl InvalidToken"
  using token_validity_window [of sample_env sample_req "[]" "''id1''"]
    token_validity_window
      [of sample_env "sample_req\<lparr>role := Some ''teacher''\<rparr>" "[sample_user]" "''id1''"]
  by (simp add: register_def login_def findOne_def save_def valid_user_def new_User_def
        sample_env_def sample_req_def sample_user_def roles_def Let_def)

text \<open>
  C7. The key that signs a token is the string written in \<open>generateToken\<close>, whatever the
  process configuration holds: in \<open>sample_env\<close> the configured \<open>JWT_SECRET\<close> is another
  string, and the token is signed with the one of the source.
\<close>

theorem generateToken_ignores_configured_secret:
  "configured_secret sample_env = Some ''s3cret'' \<and>
   signing_key (signature (generateToken sample_env ''id1'')) = ''your_jwt_secret''"
  by (simp add: configured_secret_def sample_env_def generateToken_signature)

end
